theory Spec2Isabelle
  imports Main "HOL-Library.AList"
begin

section \<open>JavaScript values\<close>

text \<open>
  The builder methods of \<open>src/model.ts\<close> take their argument as \<open>any\<close> and work on
  it as a bag of attributes. The values are modelled as JSON-like data: primitives,
  arrays, and plain objects. An object is the list of its own properties in the order
  \<open>Object.entries\<close> enumerates them; a well-formed object has distinct keys. Every
  key the methods add is a fixed name that is not integer-like, so a new key goes to
  the end of the list, as in the engine. Numbers are restricted to integers (no
  operation of the file computes with them; only their truthiness is read).
\<close>

datatype jsval =
    JUndefined
  | JNull
  | JBool bool
  | JNum int
  | JStr string
  | JArr "jsval list"
  | JObj "(string \<times> jsval) list"

type_synonym obj = "(string \<times> jsval) list"

text \<open>
  What a method can throw. \<open>TypeError\<close> is the engine's error for a property access on
  \<open>undefined\<close>/\<open>null\<close> and for a property store on a primitive (class bodies are strict
  code). \<open>Error msg\<close> is \<open>throw new Error(msg)\<close> with a fixed message.
  \<open>NotSupportedFor t\<close> is the throw of \<open>extractFieldValidations\<close>, whose message
  interpolates the field type \<open>t\<close>; the value is kept as it is, not rendered.
  \<open>Unmodelled\<close> is not an error of the program: it marks the two places where an input
  leaves the value model (a named property stored on an array, and a number, array or
  object rendered inside a template string). The typed interface \<open>Model\<close> passes
  neither.
\<close>

datatype error =
    TypeError
  | Error string
  | NotSupportedFor jsval
  | Unmodelled

text \<open>JavaScript truthiness: what \<open>if (v)\<close>, \<open>!v\<close> and \<open>v || w\<close> test.\<close>

fun truthy :: "jsval \<Rightarrow> bool" where
  "truthy JUndefined = False"
| "truthy JNull = False"
| "truthy (JBool b) = b"
| "truthy (JNum n) = (n \<noteq> 0)"
| "truthy (JStr s) = (s \<noteq> [])"
| "truthy (JArr xs) = True"
| "truthy (JObj kvs) = True"

definition js_or :: "jsval \<Rightarrow> jsval \<Rightarrow> jsval" where
  "js_or v w = (if truthy v then v else w)"

fun is_array :: "jsval \<Rightarrow> bool" where
  "is_array (JArr xs) = True"
| "is_array v = False"

subsection \<open>Properties of an object\<close>

text \<open>
  \<open>obj_get\<close> reads an own property (\<open>undefined\<close> when absent), \<open>obj_set\<close> stores one
  (in place when the key exists, at the end otherwise), \<open>obj_del\<close> is \<open>delete\<close>, and
  \<open>obj_keys\<close> is \<open>Object.keys\<close>.
\<close>

definition obj_get :: "obj \<Rightarrow> string \<Rightarrow> jsval" where
  "obj_get a k = (case map_of a k of None \<Rightarrow> JUndefined | Some v \<Rightarrow> v)"

definition obj_set :: "obj \<Rightarrow> string \<Rightarrow> jsval \<Rightarrow> obj" where
  "obj_set a k v = AList.update k v a"

definition obj_del :: "obj \<Rightarrow> string \<Rightarrow> obj" where
  "obj_del a k = AList.delete k a"

definition obj_keys :: "obj \<Rightarrow> string list" where
  "obj_keys a = map fst a"

subsection \<open>Properties of any value\<close>

text \<open>
  \<open>get_prop v k\<close> is the read \<open>v.k\<close> for the names the file reads (none of them is
  inherited from a prototype, \<open>length\<close> of arrays and strings apart): it throws on
  \<open>undefined\<close> and \<open>null\<close>. \<open>set_prop v k w\<close> is the store \<open>v.k = w\<close>; it gives the
  object as it is after the store.
\<close>

fun get_prop :: "jsval \<Rightarrow> string \<Rightarrow> error + jsval" where
  "get_prop JUndefined k = Inl TypeError"
| "get_prop JNull k = Inl TypeError"
| "get_prop (JObj a) k = Inr (obj_get a k)"
| "get_prop (JArr xs) k = Inr (if k = ''length'' then JNum (int (length xs)) else JUndefined)"
| "get_prop (JStr s) k = Inr (if k = ''length'' then JNum (int (length s)) else JUndefined)"
| "get_prop (JBool b) k = Inr JUndefined"
| "get_prop (JNum n) k = Inr JUndefined"

fun set_prop :: "jsval \<Rightarrow> string \<Rightarrow> jsval \<Rightarrow> error + obj" where
  "set_prop (JObj a) k w = Inr (obj_set a k w)"
| "set_prop (JArr xs) k w = Inl Unmodelled"
| "set_prop v k w = Inl TypeError"

text \<open>
  Optional chaining \<open>v?.k\<close>: \<open>undefined\<close> when \<open>v\<close> is \<open>undefined\<close> or \<open>null\<close>,
  the read otherwise.
\<close>

definition opt_chain :: "jsval \<Rightarrow> string \<Rightarrow> jsval" where
  "opt_chain v k = (case get_prop v k of Inl e \<Rightarrow> JUndefined | Inr w \<Rightarrow> w)"

text \<open>
  \<open>v.constructor.name\<close>: a plain object answers \<open>Object\<close> unless it has an own
  property \<open>constructor\<close>, which is then read instead.
\<close>

fun constructor_name :: "jsval \<Rightarrow> error + jsval" where
  "constructor_name JUndefined = Inl TypeError"
| "constructor_name JNull = Inl TypeError"
| "constructor_name (JObj a) =
     (case map_of a ''constructor'' of
        None \<Rightarrow> Inr (JStr ''Object'')
      | Some c \<Rightarrow> get_prop c ''name'')"
| "constructor_name (JArr xs) = Inr (JStr ''Array'')"
| "constructor_name (JStr s) = Inr (JStr ''String'')"
| "constructor_name (JNum n) = Inr (JStr ''Number'')"
| "constructor_name (JBool b) = Inr (JStr ''Boolean'')"

text \<open>
  A value inside a template string \<open>`...${v}...`\<close>. Strings stand for themselves;
  the rendering of numbers, arrays and objects is outside the model.
\<close>

fun template_text :: "jsval \<Rightarrow> error + string" where
  "template_text (JStr s) = Inr s"
| "template_text JUndefined = Inr ''undefined''"
| "template_text JNull = Inr ''null''"
| "template_text (JBool b) = Inr (if b then ''true'' else ''false'')"
| "template_text v = Inl Unmodelled"

section \<open>Enumerations and change items\<close>

text \<open>
  Modelled from the spec: the enumerations \<open>MutationMode\<close>, \<open>RelationType\<close>
  (\<open>./util\<close>) and \<open>FieldType\<close> (\<open>./field\<close>), whose declarations are outside
  \<open>model.ts\<close>. Their members are the ones the spec lists.
\<close>

datatype MutationMode = Create | Update | Delete

datatype RelationType = OneToOne | OneToMany | ManyToOne | ManyToMany

datatype FieldType = SimpleField | RemoteField | RelationalField | UnionField | EnumerableField

text \<open>
  The runtime values of the enumeration members that \<open>model.ts\<close> compares attributes
  with or stores into a payload are declared in files outside \<open>model.ts\<close>
  (\<open>./generated/schema\<close>, \<open>./renderer\<close>, \<open>./util\<close>). They are parameters of the model.
  Members of a TypeScript enum are strings or numbers, so \<open>===\<close> against one of them
  is equality of values.
\<close>

record enums =
  GraphQLSimpleFieldType_String :: jsval
  GraphQLSimpleFieldType_Int :: jsval
  GraphQLSimpleFieldType_Float :: jsval
  GraphQLRemoteFieldType_Remote :: jsval
  Renderer_SingleLine :: jsval
  RelationType_value :: "RelationType \<Rightarrow> jsval"

text \<open>
  Modelled from the spec: the class \<open>Field\<close> of \<open>./field\<close>, whose constructor
  \<open>model.ts\<close> calls with a payload, a mutation mode and, for the non-simple
  categories, a field type. The spec describes a change item as an immutable record
  pairing a mutation intent with its normalized argument payload; the third
  constructor argument is kept as given (\<open>None\<close> when the call omits it). The
  record holds the payload as a value, the one the argument object has when the
  constructor is called: what a later mutation of the caller's object would do to an
  item already registered depends on that constructor and is not modelled.
\<close>

record Field =
  payload :: obj
  intent :: MutationMode
  category :: "FieldType option"

text \<open>
  \<open>ModelClass\<close>: the mutation mode and the model's own arguments. Its third member,
  the listener, is the shared accumulator; the methods below take it and return it.
\<close>

record ModelClass =
  mode :: MutationMode
  args :: obj

datatype ChangeItem = FieldChange Field | ModelChange ModelClass

text \<open>
  Modelled from the spec: \<open>ChangeListener.registerChange\<close> of \<open>./migration\<close>. The
  accumulator is an ordered, append-only list, and \<open>registerChange(item)\<close> appends
  unconditionally.
\<close>

definition registerChange :: "ChangeItem \<Rightarrow> ChangeItem list \<Rightarrow> ChangeItem list" where
  "registerChange item changes = changes @ [item]"

text \<open>
  A method either throws, leaving the accumulator as it is at the throw, or returns
  (the builder itself, which is unchanged) with the accumulator it leaves.
\<close>

type_synonym outcome = "(error + unit) \<times> ChangeItem list"

definition throw :: "error \<Rightarrow> ChangeItem list \<Rightarrow> outcome" where
  "throw e listener = (Inl e, listener)"

definition register_and_return :: "Field \<Rightarrow> ChangeItem list \<Rightarrow> outcome" where
  "register_and_return field listener = (Inr (), registerChange (FieldChange field) listener)"

section \<open>hasChanges\<close>

definition hasChanges :: "ModelClass \<Rightarrow> bool" where
  "hasChanges this =
     (if mode this \<noteq> Update then True
      else if length (obj_keys (args this)) > 1 then True
      else False)"

section \<open>The validation extractor\<close>

text \<open>
  \<open>extractFieldValidations\<close>: a \<open>switch\<close> on the declared type, tried in the order
  \<open>Int\<close>, \<open>Float\<close>, \<open>String\<close>, with a throwing \<open>default\<close>.
\<close>

definition extractFieldValidations :: "enums \<Rightarrow> obj \<Rightarrow> error + jsval" where
  "extractFieldValidations E fieldArgs =
     (let t = obj_get fieldArgs ''type'';
          v = obj_get fieldArgs ''validations'';
          isList = truthy (obj_get fieldArgs ''isList'')
      in if t = GraphQLSimpleFieldType_Int E then
           (let n = [(''range'', opt_chain v ''range'')];
                n' = (if isList then obj_set n ''listItemCount'' (opt_chain v ''listItemCount'') else n)
            in Inr (JObj (obj_set [] ''Int'' (JObj n'))))
         else if t = GraphQLSimpleFieldType_Float E then
           (let n = [(''range'', opt_chain v ''range'')];
                n' = (if isList then obj_set n ''listItemCount'' (opt_chain v ''listItemCount'') else n)
            in Inr (JObj (obj_set [] ''Float'' (JObj n'))))
         else if t = GraphQLSimpleFieldType_String E then
           (let n = [(''characters'', opt_chain v ''characters''),
                     (''matches'', opt_chain v ''matches''),
                     (''notMatches'', opt_chain v ''notMatches'')];
                n' = (if isList then obj_set n ''listItemCount'' (opt_chain v ''listItemCount'') else n)
            in Inr (JObj (obj_set [] ''String'' (JObj n'))))
         else Inl (NotSupportedFor t))"

section \<open>The builder methods\<close>

text \<open>
  Each method mutates its argument object in place and hands it to \<open>new Field\<close>; the
  model threads the object through the stores (\<open>a1\<close>, \<open>a2\<close>, ...). A nested object
  that the source mutates through \<open>fieldArgs.reverseField\<close> or
  \<open>fieldArgs.remoteConfig\<close> is carried in a variable of its own and stored back
  under its key, which exists by then, so the key keeps its place.
\<close>

definition addSimpleField :: "enums \<Rightarrow> ModelClass \<Rightarrow> jsval \<Rightarrow> ChangeItem list \<Rightarrow> outcome" where
  "addSimpleField E this fieldArgs listener =
     (case set_prop fieldArgs ''modelApiId'' (obj_get (args this) ''apiId'') of
        Inl e \<Rightarrow> throw e listener
      | Inr a1 \<Rightarrow>
          let a2 = (if obj_get a1 ''type'' = GraphQLSimpleFieldType_String E
                    then obj_set a1 ''formRenderer''
                           (js_or (obj_get a1 ''formRenderer'') (Renderer_SingleLine E))
                    else a1)
          in (case (if truthy (obj_get a2 ''validations'')
                   then (case extractFieldValidations E a2 of
                           Inl e \<Rightarrow> Inl e
                         | Inr v \<Rightarrow> Inr (obj_set a2 ''validations'' v))
                   else Inr a2) of
               Inl e \<Rightarrow> throw e listener
             | Inr a3 \<Rightarrow>
                 register_and_return
                   \<lparr>payload = a3, intent = Create, category = None\<rparr> listener))"

text \<open>
  The loop of \<open>addRemoteField\<close> over \<open>Object.entries(headers)\<close>: the entries are read
  once, then each key is stored again with its value wrapped unless it is an array.
\<close>

definition wrap_headers :: "obj \<Rightarrow> obj" where
  "wrap_headers hs =
     fold (\<lambda>(k, v) h. obj_set h k (if is_array v then v else JArr [v])) hs hs"

definition addRemoteField :: "enums \<Rightarrow> ModelClass \<Rightarrow> jsval \<Rightarrow> ChangeItem list \<Rightarrow> outcome" where
  "addRemoteField E this fieldArgs listener =
     (case set_prop fieldArgs ''modelApiId'' (obj_get (args this) ''apiId'') of
        Inl e \<Rightarrow> throw e listener
      | Inr a1 \<Rightarrow>
          let a2 = obj_set a1 ''type'' (GraphQLRemoteFieldType_Remote E);
              remoteConfig = obj_get a2 ''remoteConfig''
          in (case get_prop remoteConfig ''headers'' of
               Inl e \<Rightarrow> throw e listener
             | Inr headers \<Rightarrow>
                 (case (if truthy headers then
                          (case constructor_name headers of
                             Inl e \<Rightarrow> Inl e
                           | Inr n \<Rightarrow>
                               if n \<noteq> JStr ''Object''
                               then Inl (Error ''Headers in remote config has to be an object'')
                               else (case headers of
                                       JObj hs \<Rightarrow> set_prop remoteConfig ''headers'' (JObj (wrap_headers hs))
                                     | _ \<Rightarrow> Inl Unmodelled))
                        else set_prop remoteConfig ''headers'' (JObj [])) of
                    Inl e \<Rightarrow> throw e listener
                  | Inr c1 \<Rightarrow>
                      let c2 = obj_set c1 ''payloadFieldApiIds''
                                 (js_or (obj_get c1 ''payloadFieldApiIds'') (JArr []));
                          c3 = obj_set c2 ''method'' (js_or (obj_get c2 ''method'') (JStr ''GET''));
                          a3 = obj_set a2 ''remoteConfig'' (JObj c3)
                      in register_and_return
                           \<lparr>payload = a3, intent = Create, category = Some RemoteField\<rparr> listener)))"

text \<open>
  In \<open>updateSimpleField\<close> the rest pattern \<open>{ type, ...fieldChanges }\<close> copies every
  own property but \<open>type\<close> into a new object.
\<close>

definition updateSimpleField :: "enums \<Rightarrow> ModelClass \<Rightarrow> jsval \<Rightarrow> ChangeItem list \<Rightarrow> outcome" where
  "updateSimpleField E this fieldArgs listener =
     (case set_prop fieldArgs ''modelApiId'' (obj_get (args this) ''apiId'') of
        Inl e \<Rightarrow> throw e listener
      | Inr a1 \<Rightarrow>
          (case (if truthy (obj_get a1 ''validations'')
                 then (case extractFieldValidations E a1 of
                         Inl e \<Rightarrow> Inl e
                       | Inr v \<Rightarrow> Inr (obj_set a1 ''validations'' v))
                 else Inr a1) of
             Inl e \<Rightarrow> throw e listener
           | Inr a2 \<Rightarrow>
               let fieldChanges = obj_del a2 ''type''
               in register_and_return
                    \<lparr>payload = fieldChanges, intent = Update, category = None\<rparr> listener))"

text \<open>
  The object literal both relation methods synthesize when no reverse field is given:
  \<open>{ apiId: `related${m}`, displayName: `Related ${m}` }\<close>.
\<close>

definition reverseField_literal :: "jsval \<Rightarrow> error + jsval" where
  "reverseField_literal m =
     (case template_text m of
        Inl e \<Rightarrow> Inl e
      | Inr s \<Rightarrow> Inr (JObj [(''apiId'', JStr (''related'' @ s)),
                             (''displayName'', JStr (''Related '' @ s))]))"

definition addRelationalField :: "enums \<Rightarrow> ModelClass \<Rightarrow> jsval \<Rightarrow> ChangeItem list \<Rightarrow> outcome" where
  "addRelationalField E this fieldArgs listener =
     (case set_prop fieldArgs ''modelApiId'' (obj_get (args this) ''apiId'') of
        Inl e \<Rightarrow> throw e listener
      | Inr a1 \<Rightarrow>
          let a2 = obj_set a1 ''type''
                     (if (truthy (obj_get a1 ''type'') \<and> obj_get a1 ''type'' = JStr ''ASSET'') \<or>
                         (truthy (obj_get a1 ''model'') \<and> obj_get a1 ''model'' = JStr ''Asset'')
                      then JStr ''ASSET'' else JStr ''RELATION'')
          in (case (if \<not> truthy (obj_get a2 ''reverseField'')
                   then (case reverseField_literal (obj_get a2 ''modelApiId'') of
                           Inl e \<Rightarrow> Inl e
                         | Inr r \<Rightarrow> Inr (obj_set a2 ''reverseField'' r))
                   else Inr a2) of
               Inl e \<Rightarrow> throw e listener
             | Inr a3 \<Rightarrow>
                 (case set_prop (obj_get a3 ''reverseField'') ''modelApiId'' (obj_get a3 ''model'') of
                    Inl e \<Rightarrow> throw e listener
                  | Inr r1 \<Rightarrow>
                      let relationType = obj_get a3 ''relationType'';
                          a4 = obj_set a3 ''isList''
                                 (JBool (relationType = RelationType_value E OneToMany \<or>
                                         relationType = RelationType_value E ManyToMany));
                          r2 = obj_set r1 ''isList''
                                 (JBool (relationType = RelationType_value E ManyToOne \<or>
                                         relationType = RelationType_value E ManyToMany));
                          asset = (obj_get a4 ''type'' = JStr ''ASSET'');
                          a5 = (if asset
                                then (if obj_get a4 ''isRequired'' = JUndefined
                                      then obj_set a4 ''isRequired'' (JBool False) else a4)
                                else obj_del a4 ''isRequired'');
                          r3 = (if asset
                                then obj_set (obj_set r2 ''isList'' (JBool True)) ''isHidden'' (JBool True)
                                else r2);
                          a6 = obj_del (obj_del a5 ''model'') ''relationType'';
                          a7 = obj_set a6 ''reverseField'' (JObj r3)
                      in register_and_return
                           \<lparr>payload = a7, intent = Create, category = Some RelationalField\<rparr>
                           listener)))"

definition addUnionField :: "enums \<Rightarrow> ModelClass \<Rightarrow> jsval \<Rightarrow> ChangeItem list \<Rightarrow> outcome" where
  "addUnionField E this fieldArgs listener =
     (case set_prop fieldArgs ''modelApiId'' (obj_get (args this) ''apiId'') of
        Inl e \<Rightarrow> throw e listener
      | Inr a1 \<Rightarrow>
          if \<not> truthy (obj_get a1 ''models'') \<or>
             get_prop (obj_get a1 ''models'') ''length'' = Inr (JNum 0)
          then throw (Error ''models cannot be empty'') listener
          else
            (case (if \<not> truthy (obj_get a1 ''reverseField'')
                   then (case reverseField_literal (obj_get a1 ''modelApiId'') of
                           Inl e \<Rightarrow> Inl e
                         | Inr r \<Rightarrow> Inr (obj_set a1 ''reverseField'' r))
                   else Inr a1) of
               Inl e \<Rightarrow> throw e listener
             | Inr a2 \<Rightarrow>
                 (case set_prop (obj_get a2 ''reverseField'') ''modelApiIds'' (obj_get a2 ''models'') of
                    Inl e \<Rightarrow> throw e listener
                  | Inr r1 \<Rightarrow>
                      let relationType = obj_get a2 ''relationType'';
                          a3 = obj_set a2 ''isList''
                                 (JBool (relationType = RelationType_value E OneToMany \<or>
                                         relationType = RelationType_value E ManyToMany));
                          r2 = obj_set r1 ''isList''
                                 (JBool (relationType = RelationType_value E ManyToOne \<or>
                                         relationType = RelationType_value E ManyToMany));
                          a4 = obj_del (obj_del a3 ''models'') ''relationType'';
                          a5 = obj_set a4 ''reverseField'' (JObj r2)
                      in register_and_return
                           \<lparr>payload = a5, intent = Create, category = Some UnionField\<rparr>
                           listener)))"

definition updateRelationalField :: "ModelClass \<Rightarrow> jsval \<Rightarrow> ChangeItem list \<Rightarrow> outcome" where
  "updateRelationalField this fieldArgs listener =
     (case set_prop fieldArgs ''modelApiId'' (obj_get (args this) ''apiId'') of
        Inl e \<Rightarrow> throw e listener
      | Inr a1 \<Rightarrow>
          register_and_return
            \<lparr>payload = a1, intent = Update, category = Some RelationalField\<rparr> listener)"

definition updateUnionField :: "ModelClass \<Rightarrow> jsval \<Rightarrow> ChangeItem list \<Rightarrow> outcome" where
  "updateUnionField this fieldArgs listener =
     (case set_prop fieldArgs ''modelApiId'' (obj_get (args this) ''apiId'') of
        Inl e \<Rightarrow> throw e listener
      | Inr a1 \<Rightarrow>
          let a2 = obj_set a1 ''reverseField'' (JObj [(''modelApiIds'', obj_get a1 ''models'')]);
              a3 = obj_del a2 ''models''
          in register_and_return
               \<lparr>payload = a3, intent = Update, category = Some UnionField\<rparr> listener)"

definition addEnumerableField :: "ModelClass \<Rightarrow> jsval \<Rightarrow> ChangeItem list \<Rightarrow> outcome" where
  "addEnumerableField this fieldArgs listener =
     (case get_prop fieldArgs ''enumerationApiId'' of
        Inl e \<Rightarrow> throw e listener
      | Inr enumerationApiId \<Rightarrow>
          if \<not> truthy enumerationApiId
          then throw (Error ''enumerationApiId is required for enumerable field'') listener
          else
            (case set_prop fieldArgs ''modelApiId'' (obj_get (args this) ''apiId'') of
               Inl e \<Rightarrow> throw e listener
             | Inr a1 \<Rightarrow>
                 register_and_return
                   \<lparr>payload = a1, intent = Create, category = Some EnumerableField\<rparr> listener))"

definition updateEnumerableField :: "ModelClass \<Rightarrow> jsval \<Rightarrow> ChangeItem list \<Rightarrow> outcome" where
  "updateEnumerableField this fieldArgs listener =
     (case set_prop fieldArgs ''modelApiId'' (obj_get (args this) ''apiId'') of
        Inl e \<Rightarrow> throw e listener
      | Inr a1 \<Rightarrow>
          register_and_return
            \<lparr>payload = a1, intent = Update, category = Some EnumerableField\<rparr> listener)"

definition deleteField :: "ModelClass \<Rightarrow> string \<Rightarrow> ChangeItem list \<Rightarrow> outcome" where
  "deleteField this apiId listener =
     register_and_return
       \<lparr>payload = [(''apiId'', JStr apiId), (''modelApiId'', obj_get (args this) ''apiId'')],
        intent = Delete, category = None\<rparr> listener"

section \<open>Reference statements and example inputs\<close>

text \<open>
  The table of the specification for list-ness: for each relation type, whether the
  forward side and the reverse side are lists.
\<close>

fun spec_listness :: "RelationType \<Rightarrow> bool \<times> bool" where
  "spec_listness OneToOne = (False, False)"
| "spec_listness OneToMany = (True, False)"
| "spec_listness ManyToOne = (False, True)"
| "spec_listness ManyToMany = (True, True)"

text \<open>
  Header normalization as the specification words it: a value that is a list stays,
  any other value becomes a one-element list.
\<close>

definition spec_normalize_headers :: "obj \<Rightarrow> obj" where
  "spec_normalize_headers hs = map (\<lambda>(k, v). (k, if is_array v then v else JArr [v])) hs"

text \<open>The methods of the interface \<open>Model\<close>, as calls, and their dispatch.\<close>

datatype call =
    AddSimpleField jsval
  | AddRemoteField jsval
  | UpdateSimpleField jsval
  | AddRelationalField jsval
  | UpdateRelationalField jsval
  | AddUnionField jsval
  | UpdateUnionField jsval
  | AddEnumerableField jsval
  | UpdateEnumerableField jsval
  | DeleteField string

fun invoke :: "enums \<Rightarrow> ModelClass \<Rightarrow> call \<Rightarrow> ChangeItem list \<Rightarrow> outcome" where
  "invoke E this (AddSimpleField x) listener = addSimpleField E this x listener"
| "invoke E this (AddRemoteField x) listener = addRemoteField E this x listener"
| "invoke E this (UpdateSimpleField x) listener = updateSimpleField E this x listener"
| "invoke E this (AddRelationalField x) listener = addRelationalField E this x listener"
| "invoke E this (UpdateRelationalField x) listener = updateRelationalField this x listener"
| "invoke E this (AddUnionField x) listener = addUnionField E this x listener"
| "invoke E this (UpdateUnionField x) listener = updateUnionField this x listener"
| "invoke E this (AddEnumerableField x) listener = addEnumerableField this x listener"
| "invoke E this (UpdateEnumerableField x) listener = updateEnumerableField this x listener"
| "invoke E this (DeleteField apiId) listener = deleteField this apiId listener"

text \<open>
  One assignment of the enumeration values, used to run the methods on examples. The
  relation types are the strings the scenarios of the specification pass.
\<close>

fun sample_relation :: "RelationType \<Rightarrow> jsval" where
  "sample_relation OneToOne = JStr ''OneToOne''"
| "sample_relation OneToMany = JStr ''OneToMany''"
| "sample_relation ManyToOne = JStr ''ManyToOne''"
| "sample_relation ManyToMany = JStr ''ManyToMany''"

definition sample_enums :: enums where
  "sample_enums =
     \<lparr>GraphQLSimpleFieldType_String = JStr ''STRING'',
      GraphQLSimpleFieldType_Int = JStr ''INT'',
      GraphQLSimpleFieldType_Float = JStr ''FLOAT'',
      GraphQLRemoteFieldType_Remote = JStr ''REMOTE'',
      Renderer_SingleLine = JStr ''SINGLE_LINE'',
      RelationType_value = sample_relation\<rparr>"

text \<open>The builder of a model \<open>Post\<close>, in creation.\<close>

definition post_model :: ModelClass where
  "post_model = \<lparr>mode = Create, args = [(''apiId'', JStr ''Post''), (''displayName'', JStr ''Post'')]\<rparr>"

text \<open>
  What a method may leave behind: it threw and the accumulator is the one it was
  called with, or it returned and the accumulator has one more field change at the end.
\<close>

definition settled :: "ChangeItem list \<Rightarrow> outcome \<Rightarrow> bool" where
  "settled listener out =
     ((\<exists>e. out = (Inl e, listener)) \<or> (\<exists>f. out = (Inr (), listener @ [FieldChange f])))"

section \<open>Properties of objects\<close>

lemma obj_get_set: "obj_get (obj_set a k v) k' = (if k' = k then v else obj_get a k')"
  by (simp add: obj_get_def obj_set_def update_conv')

lemma obj_get_del: "obj_get (obj_del a k) k' = (if k' = k then JUndefined else obj_get a k')"
  by (simp add: obj_get_def obj_del_def delete_conv')

lemma obj_keys_del: "set (obj_keys (obj_del a k)) = set (obj_keys a) - {k}"
  by (auto simp: obj_keys_def obj_del_def delete_keys)

lemma obj_keys_set: "set (obj_keys (obj_set a k v)) = insert k (set (obj_keys a))"
  using dom_update [of k v a] by (simp add: obj_keys_def obj_set_def)

lemma obj_get_absent: "k \<notin> set (obj_keys a) \<Longrightarrow> obj_get a k = JUndefined"
  by (simp add: obj_get_def obj_keys_def map_of_eq_None_iff [THEN iffD2])

lemma set_prop_Inr: "set_prop v k w = Inr b \<longleftrightarrow> (\<exists>a. v = JObj a \<and> b = obj_set a k w)"
  by (cases v) auto

lemmas run_defs = throw_def register_and_return_def registerChange_def

text \<open>The definitions to unfold when a method is run on a concrete argument.\<close>

lemmas eval_defs = obj_get_def obj_set_def obj_del_def obj_keys_def run_defs
  reverseField_literal_def Let_def sample_enums_def post_model_def js_or_def

lemma inj_sample_relation: "inj sample_relation"
proof (rule injI)
  fix x y assume "sample_relation x = sample_relation y"
  then show "x = y" by (cases x; cases y) simp_all
qed

text \<open>In a list without repetition that holds \<open>a\<close>, a second element is an element other than \<open>a\<close>.\<close>

lemma distinct_other:
  assumes "distinct xs" "a \<in> set xs"
  shows "1 < length xs \<longleftrightarrow> (\<exists>k\<in>set xs. k \<noteq> a)"
proof
  assume "1 < length xs"
  with assms have "1 < card (set xs)" by (simp add: distinct_card)
  then have "set xs \<noteq> {a}" by auto
  with assms show "\<exists>k\<in>set xs. k \<noteq> a" by auto
next
  assume "\<exists>k\<in>set xs. k \<noteq> a"
  then obtain k where k: "k \<in> set xs" "k \<noteq> a" by blast
  with assms have "card {a, k} \<le> card (set xs)" by (intro card_mono) auto
  with k assms show "1 < length xs" by (simp add: distinct_card)
qed

section \<open>Effective changes\<close>

text \<open>
  Claim C5. \<open>hasChanges\<close> is true for every model change item in mode Create or
  Delete. In mode Update, for a payload that carries its \<open>apiId\<close> (as the type
  \<open>ModelArgs\<close> requires) under distinct keys, it is true exactly when the payload has
  a key other than \<open>apiId\<close>; on the payload \<open>{apiId: x}\<close> it is false.
\<close>

theorem hasChanges_effective:
  "(mode this \<noteq> Update \<longrightarrow> hasChanges this) \<and>
   (mode this = Update \<and> distinct (obj_keys (args this)) \<and>
    ''apiId'' \<in> set (obj_keys (args this)) \<longrightarrow>
      (hasChanges this \<longleftrightarrow> (\<exists>k\<in>set (obj_keys (args this)). k \<noteq> ''apiId''))) \<and>
   (mode this = Update \<and> args this = [(''apiId'', x)] \<longrightarrow> \<not> hasChanges this)"
  using distinct_other [of "obj_keys (args this)" "''apiId''"]
  by (auto simp: hasChanges_def obj_keys_def)

theorem hasChanges_effective_witness:
  "hasChanges \<lparr>mode = Delete, args = [(''apiId'', JStr ''Post'')]\<rparr> \<and>
   hasChanges \<lparr>mode = Update, args = [(''apiId'', JStr ''Post''), (''displayName'', JStr ''Article'')]\<rparr> \<and>
   \<not> hasChanges \<lparr>mode = Update, args = [(''apiId'', JStr ''Post'')]\<rparr>"
  using hasChanges_effective [of "\<lparr>mode = Delete, args = [(''apiId'', JStr ''Post'')]\<rparr>"]
    hasChanges_effective [of "\<lparr>mode = Update, args = [(''apiId'', JStr ''Post''), (''displayName'', JStr ''Article'')]\<rparr>"]
    hasChanges_effective [of "\<lparr>mode = Update, args = [(''apiId'', JStr ''Post'')]\<rparr>" "JStr ''Post''"]
  by (simp add: obj_keys_def)

section \<open>Updating a simple field\<close>

text \<open>
  Claim C6. Whenever \<open>updateSimpleField\<close> returns, the change item it registered is in
  mode Update and its payload has no \<open>type\<close> attribute, whatever the caller passed.
\<close>

theorem updateSimpleField_drops_type:
  assumes "fst (updateSimpleField E this fieldArgs listener) = Inr ()"
  shows "\<exists>f. snd (updateSimpleField E this fieldArgs listener) = listener @ [FieldChange f] \<and>
             intent f = Update \<and> ''type'' \<notin> set (obj_keys (payload f))"
  using assms
  by (auto simp: updateSimpleField_def throw_def register_and_return_def registerChange_def
        obj_keys_del split: sum.splits if_splits)

theorem updateSimpleField_drops_type_witness:
  "fst (updateSimpleField sample_enums post_model
          (JObj [(''apiId'', JStr ''title''), (''type'', JStr ''STRING''), (''isUnique'', JBool True)]) []) = Inr () \<and>
   (\<exists>f. snd (updateSimpleField sample_enums post_model
          (JObj [(''apiId'', JStr ''title''), (''type'', JStr ''STRING''), (''isUnique'', JBool True)]) [])
          = [] @ [FieldChange f] \<and>
        intent f = Update \<and> ''type'' \<notin> set (obj_keys (payload f)))"
proof -
  have ok: "fst (updateSimpleField sample_enums post_model
          (JObj [(''apiId'', JStr ''title''), (''type'', JStr ''STRING''), (''isUnique'', JBool True)]) []) = Inr ()"
    by (simp add: updateSimpleField_def post_model_def obj_get_def obj_set_def obj_del_def
          register_and_return_def)
  from updateSimpleField_drops_type [OF ok] ok show ?thesis by blast
qed

section \<open>Failing calls\<close>

text \<open>
  Claim C4. A call of \<open>addUnionField\<close> on an argument object whose \<open>models\<close> is
  absent or the empty list throws \<open>Error("models cannot be empty")\<close> and leaves the
  accumulator's list exactly as it was.
\<close>

theorem addUnionField_empty_models:
  assumes "''models'' \<notin> set (obj_keys a) \<or> obj_get a ''models'' = JArr []"
  shows "addUnionField E this (JObj a) listener = (Inl (Error ''models cannot be empty''), listener)"
proof -
  from assms have "obj_get a ''models'' = JUndefined \<or> obj_get a ''models'' = JArr []"
    by (auto dest: obj_get_absent)
  then show ?thesis
    by (auto simp: addUnionField_def throw_def obj_get_set)
qed

theorem addUnionField_empty_models_witness:
  "addUnionField sample_enums post_model
     (JObj [(''apiId'', JStr ''content''), (''models'', JArr [])]) [ModelChange post_model]
     = (Inl (Error ''models cannot be empty''), [ModelChange post_model]) \<and>
   addUnionField sample_enums post_model
     (JObj [(''apiId'', JStr ''content'')]) [ModelChange post_model]
     = (Inl (Error ''models cannot be empty''), [ModelChange post_model])"
  using addUnionField_empty_models
          [of "[(''apiId'', JStr ''content''), (''models'', JArr [])]" sample_enums post_model
              "[ModelChange post_model]"]
        addUnionField_empty_models
          [of "[(''apiId'', JStr ''content'')]" sample_enums post_model "[ModelChange post_model]"]
  by (simp add: obj_get_def obj_keys_def)

text \<open>
  Claim C10. A call of \<open>updateSimpleField\<close> whose argument object has a
  \<open>validations\<close> object and no \<open>type\<close> attribute throws from the default branch of
  the validation extractor (the type it reports is \<open>undefined\<close>) and leaves the
  accumulator's list as it was. No member of the field type enumeration is
  \<open>undefined\<close>.
\<close>

theorem updateSimpleField_validations_need_type:
  assumes "obj_get a ''validations'' = JObj v"
    and "''type'' \<notin> set (obj_keys a)"
    and "JUndefined \<notin> {GraphQLSimpleFieldType_Int E, GraphQLSimpleFieldType_Float E, GraphQLSimpleFieldType_String E}"
  shows "updateSimpleField E this (JObj a) listener = (Inl (NotSupportedFor JUndefined), listener)"
proof -
  from assms(2) have "obj_get a ''type'' = JUndefined" by (rule obj_get_absent)
  with assms(1,3) show ?thesis
    by (auto simp: updateSimpleField_def extractFieldValidations_def throw_def obj_get_set Let_def)
qed

theorem updateSimpleField_validations_need_type_witness:
  "updateSimpleField sample_enums post_model
     (JObj [(''apiId'', JStr ''title''),
            (''validations'', JObj [(''range'', JObj [(''min'', JNum 1)])])])
     [ModelChange post_model]
     = (Inl (NotSupportedFor JUndefined), [ModelChange post_model])"
  using updateSimpleField_validations_need_type
          [of "[(''apiId'', JStr ''title''),
                (''validations'', JObj [(''range'', JObj [(''min'', JNum 1)])])]"
              "[(''range'', JObj [(''min'', JNum 1)])]" sample_enums post_model
              "[ModelChange post_model]"]
  by (simp add: obj_get_def obj_keys_def sample_enums_def)

section \<open>Remote fields: header normalization\<close>

lemma update_append_notin:
  "k \<notin> fst ` set ys \<Longrightarrow> AList.update k w (ys @ zs) = ys @ AList.update k w zs"
  by (induction ys) auto

lemma fold_store_entries:
  "distinct (map fst (ys @ xs)) \<Longrightarrow>
   fold (\<lambda>(k, v) h. obj_set h k (g v)) xs (ys @ xs) = ys @ map (\<lambda>(k, v). (k, g v)) xs"
proof (induction xs arbitrary: ys)
  case Nil
  then show ?case by simp
next
  case (Cons p xs)
  obtain k v where p: "p = (k, v)" by (cases p)
  from Cons.prems p have notin: "k \<notin> fst ` set ys" by auto
  have "obj_set (ys @ p # xs) k (g v) = (ys @ [(k, g v)]) @ xs"
    using notin p by (simp add: obj_set_def update_append_notin)
  moreover have "distinct (map fst ((ys @ [(k, g v)]) @ xs))"
    using Cons.prems p by simp
  ultimately show ?case
    using Cons.IH [of "ys @ [(k, g v)]"] p by simp
qed

lemma wrap_headers_spec:
  "distinct (obj_keys hs) \<Longrightarrow> wrap_headers hs = spec_normalize_headers hs"
  using fold_store_entries [of "[]" hs "\<lambda>v. if is_array v then v else JArr [v]"]
  by (simp add: wrap_headers_def spec_normalize_headers_def obj_keys_def)

lemma spec_normalize_headers_keys: "obj_keys (spec_normalize_headers hs) = obj_keys hs"
  by (induction hs) (auto simp: spec_normalize_headers_def obj_keys_def)

lemma spec_normalize_headers_idem:
  "spec_normalize_headers (spec_normalize_headers hs) = spec_normalize_headers hs"
  by (induction hs) (auto simp: spec_normalize_headers_def)

lemma spec_normalize_headers_id:
  "\<forall>v\<in>snd ` set hs. is_array v \<Longrightarrow> spec_normalize_headers hs = hs"
  by (induction hs) (auto simp: spec_normalize_headers_def)

lemma constructor_name_plain:
  "''constructor'' \<notin> set (obj_keys hs) \<Longrightarrow> constructor_name (JObj hs) = Inr (JStr ''Object'')"
  by (simp add: obj_keys_def map_of_eq_None_iff [THEN iffD2])

lemma addRemoteField_plain_headers:
  assumes rc: "obj_get a ''remoteConfig'' = JObj c" and h: "obj_get c ''headers'' = JObj hs"
  shows "addRemoteField E this (JObj a) listener =
     (case constructor_name (JObj hs) of
        Inl e \<Rightarrow> throw e listener
      | Inr n \<Rightarrow>
          if n \<noteq> JStr ''Object''
          then throw (Error ''Headers in remote config has to be an object'') listener
          else register_and_return
                 \<lparr>payload =
                    obj_set
                      (obj_set (obj_set a ''modelApiId'' (obj_get (args this) ''apiId''))
                         ''type'' (GraphQLRemoteFieldType_Remote E))
                      ''remoteConfig''
                      (JObj (obj_set
                               (obj_set (obj_set c ''headers'' (JObj (wrap_headers hs)))
                                  ''payloadFieldApiIds''
                                  (js_or (obj_get c ''payloadFieldApiIds'') (JArr [])))
                               ''method'' (js_or (obj_get c ''method'') (JStr ''GET'')))),
                  intent = Create, category = Some RemoteField\<rparr> listener)"
  unfolding addRemoteField_def
  by (simp add: obj_get_set Let_def rc h split: sum.splits del: constructor_name.simps)

text \<open>
  Claim C7. For an argument object whose \<open>remoteConfig\<close> is an object:
  when \<open>headers\<close> is absent (or falsy) the registered payload has the empty mapping
  as headers; when \<open>headers\<close> is an object with distinct keys and the call returns,
  every value that is a list is kept and every other value is wrapped into a
  one-element list, and the call does return when the mapping has no own
  \<open>constructor\<close> property; in both cases \<open>method\<close> is the caller's when set and
  \<open>"GET"\<close> otherwise. The loop itself computes this normalization, applying it twice
  is applying it once, and it leaves a mapping of lists unchanged.
\<close>

theorem addRemoteField_normalizes_headers:
  assumes rc: "obj_get a ''remoteConfig'' = JObj c"
  shows "(\<not> truthy (obj_get c ''headers'') \<longrightarrow>
            (\<exists>f c'. addRemoteField E this (JObj a) listener = (Inr (), listener @ [FieldChange f]) \<and>
                obj_get (payload f) ''remoteConfig'' = JObj c' \<and>
                obj_get c' ''headers'' = JObj [] \<and>
                obj_get c' ''method'' =
                  (if truthy (obj_get c ''method'') then obj_get c ''method'' else JStr ''GET''))) \<and>
         (\<forall>hs. obj_get c ''headers'' = JObj hs \<and> distinct (obj_keys hs) \<and>
                fst (addRemoteField E this (JObj a) listener) = Inr () \<longrightarrow>
            (\<exists>f c'. addRemoteField E this (JObj a) listener = (Inr (), listener @ [FieldChange f]) \<and>
                obj_get (payload f) ''remoteConfig'' = JObj c' \<and>
                obj_get c' ''headers'' = JObj (spec_normalize_headers hs) \<and>
                obj_get c' ''method'' =
                  (if truthy (obj_get c ''method'') then obj_get c ''method'' else JStr ''GET''))) \<and>
         (\<forall>hs. obj_get c ''headers'' = JObj hs \<and> ''constructor'' \<notin> set (obj_keys hs) \<longrightarrow>
            fst (addRemoteField E this (JObj a) listener) = Inr ()) \<and>
         (\<forall>hs. distinct (obj_keys hs) \<longrightarrow>
            wrap_headers hs = spec_normalize_headers hs \<and>
            wrap_headers (wrap_headers hs) = wrap_headers hs \<and>
            ((\<forall>v\<in>snd ` set hs. is_array v) \<longrightarrow> wrap_headers hs = hs))"
proof (intro conjI allI impI)
  assume "\<not> truthy (obj_get c ''headers'')"
  with rc show "\<exists>f c'. addRemoteField E this (JObj a) listener = (Inr (), listener @ [FieldChange f]) \<and>
                obj_get (payload f) ''remoteConfig'' = JObj c' \<and>
                obj_get c' ''headers'' = JObj [] \<and>
                obj_get c' ''method'' =
                  (if truthy (obj_get c ''method'') then obj_get c ''method'' else JStr ''GET'')"
    by (simp add: addRemoteField_def run_defs obj_get_set Let_def js_or_def)
next
  fix hs
  assume h: "obj_get c ''headers'' = JObj hs \<and> distinct (obj_keys hs) \<and>
                fst (addRemoteField E this (JObj a) listener) = Inr ()"
  note eq = addRemoteField_plain_headers [OF rc, of hs E this listener]
  from h eq have "constructor_name (JObj hs) = Inr (JStr ''Object'')"
    by (cases "constructor_name (JObj hs)")
       (auto simp: throw_def split: if_splits simp del: constructor_name.simps)
  with h eq show "\<exists>f c'. addRemoteField E this (JObj a) listener = (Inr (), listener @ [FieldChange f]) \<and>
                obj_get (payload f) ''remoteConfig'' = JObj c' \<and>
                obj_get c' ''headers'' = JObj (spec_normalize_headers hs) \<and>
                obj_get c' ''method'' =
                  (if truthy (obj_get c ''method'') then obj_get c ''method'' else JStr ''GET'')"
    by (simp add: run_defs obj_get_set js_or_def wrap_headers_spec del: constructor_name.simps)
next
  fix hs
  assume h: "obj_get c ''headers'' = JObj hs \<and> ''constructor'' \<notin> set (obj_keys hs)"
  then have "constructor_name (JObj hs) = Inr (JStr ''Object'')"
    by (intro constructor_name_plain) simp
  with h addRemoteField_plain_headers [OF rc, of hs E this listener]
  show "fst (addRemoteField E this (JObj a) listener) = Inr ()"
    by (simp add: register_and_return_def del: constructor_name.simps)
next
  fix hs :: obj assume d: "distinct (obj_keys hs)"
  then show "wrap_headers hs = spec_normalize_headers hs" by (rule wrap_headers_spec)
  from d have "distinct (obj_keys (spec_normalize_headers hs))"
    by (simp add: spec_normalize_headers_keys)
  with d show "wrap_headers (wrap_headers hs) = wrap_headers hs"
    by (simp add: wrap_headers_spec spec_normalize_headers_idem)
  assume "\<forall>v\<in>snd ` set hs. is_array v"
  with d show "wrap_headers hs = hs"
    by (simp add: wrap_headers_spec spec_normalize_headers_id)
qed

theorem addRemoteField_normalizes_headers_witness:
  "(\<exists>f c'. addRemoteField sample_enums post_model
       (JObj [(''apiId'', JStr ''weather''),
              (''remoteConfig'', JObj [(''headers'', JObj [(''X-Key'', JStr ''abc''),
                                                            (''Accept'', JArr [JStr ''a'', JStr ''b''])])])])
       [] = (Inr (), [] @ [FieldChange f]) \<and>
      obj_get (payload f) ''remoteConfig'' = JObj c' \<and>
      obj_get c' ''headers'' =
        JObj [(''X-Key'', JArr [JStr ''abc'']), (''Accept'', JArr [JStr ''a'', JStr ''b''])] \<and>
      obj_get c' ''method'' = JStr ''GET'') \<and>
   (\<exists>f c'. addRemoteField sample_enums post_model
       (JObj [(''apiId'', JStr ''weather''), (''remoteConfig'', JObj [(''method'', JStr ''POST'')])])
       [] = (Inr (), [] @ [FieldChange f]) \<and>
      obj_get (payload f) ''remoteConfig'' = JObj c' \<and>
      obj_get c' ''headers'' = JObj [] \<and>
      obj_get c' ''method'' = JStr ''POST'')"
proof -
  let ?hs = "[(''X-Key'', JStr ''abc''), (''Accept'', JArr [JStr ''a'', JStr ''b''])]"
  let ?c = "[(''headers'', JObj ?hs)]"
  let ?a = "[(''apiId'', JStr ''weather''), (''remoteConfig'', JObj ?c)]"
  have rc: "obj_get ?a ''remoteConfig'' = JObj ?c" by (simp add: obj_get_def)
  note t = addRemoteField_normalizes_headers [OF rc, of sample_enums post_model "[]"]
  from t [THEN conjunct2, THEN conjunct2, THEN conjunct1, THEN spec, of ?hs]
  have ok: "fst (addRemoteField sample_enums post_model (JObj ?a) []) = Inr ()"
    by (simp add: obj_get_def obj_keys_def)
  from t [THEN conjunct2, THEN conjunct1, THEN spec, of ?hs] ok
  have first: "\<exists>f c'. addRemoteField sample_enums post_model (JObj ?a) [] = (Inr (), [] @ [FieldChange f]) \<and>
      obj_get (payload f) ''remoteConfig'' = JObj c' \<and>
      obj_get c' ''headers'' =
        JObj [(''X-Key'', JArr [JStr ''abc'']), (''Accept'', JArr [JStr ''a'', JStr ''b''])] \<and>
      obj_get c' ''method'' = JStr ''GET''"
    by (simp add: obj_get_def obj_keys_def spec_normalize_headers_def)
  from addRemoteField_normalizes_headers
          [of "[(''apiId'', JStr ''weather''), (''remoteConfig'', JObj [(''method'', JStr ''POST'')])]"
              "[(''method'', JStr ''POST'')]"
              sample_enums post_model "[]", THEN conjunct1]
  have second: "\<exists>f c'. addRemoteField sample_enums post_model
       (JObj [(''apiId'', JStr ''weather''), (''remoteConfig'', JObj [(''method'', JStr ''POST'')])])
       [] = (Inr (), [] @ [FieldChange f]) \<and>
      obj_get (payload f) ''remoteConfig'' = JObj c' \<and>
      obj_get c' ''headers'' = JObj [] \<and>
      obj_get c' ''method'' = JStr ''POST''"
    by (simp add: obj_get_def)
  from first second show ?thesis by blast
qed

section \<open>Relational and union fields\<close>

lemma truthy_and_literal: "(truthy v \<and> v = JStr (c # cs)) = (v = JStr (c # cs))"
  by auto

lemma addRelationalField_payload:
  assumes ok: "fst (addRelationalField E this (JObj a) listener) = Inr ()"
  defines "asset \<equiv> obj_get a ''type'' = JStr ''ASSET'' \<or> obj_get a ''model'' = JStr ''Asset''"
  defines "rt \<equiv> obj_get a ''relationType''"
  shows "\<exists>r0 f r.
           addRelationalField E this (JObj a) listener = (Inr (), listener @ [FieldChange f]) \<and>
           intent f = Create \<and> category f = Some RelationalField \<and>
           (if truthy (obj_get a ''reverseField'') then obj_get a ''reverseField'' = JObj r0
            else reverseField_literal (obj_get (args this) ''apiId'') = Inr (JObj r0)) \<and>
           obj_get (payload f) ''reverseField'' = JObj r \<and>
           (\<forall>k. k \<notin> {''modelApiId'', ''isList'', ''isHidden''} \<longrightarrow> obj_get r k = obj_get r0 k) \<and>
           obj_get (payload f) ''type'' = (if asset then JStr ''ASSET'' else JStr ''RELATION'') \<and>
           obj_get (payload f) ''isList'' =
             JBool (rt = RelationType_value E OneToMany \<or> rt = RelationType_value E ManyToMany) \<and>
           obj_get r ''isList'' =
             JBool (asset \<or> rt = RelationType_value E ManyToOne \<or> rt = RelationType_value E ManyToMany) \<and>
           (asset \<longrightarrow> obj_get r ''isHidden'' = JBool True \<and>
              obj_get (payload f) ''isRequired'' =
                (if obj_get a ''isRequired'' = JUndefined then JBool False else obj_get a ''isRequired'')) \<and>
           (\<not> asset \<longrightarrow> ''isRequired'' \<notin> set (obj_keys (payload f)))"
proof -
  define m where "m = obj_get (args this) ''apiId''"
  define a2 where "a2 = obj_set (obj_set a ''modelApiId'' m) ''type''
                     (if asset then JStr ''ASSET'' else JStr ''RELATION'')"
  define step where "step = (if \<not> truthy (obj_get a2 ''reverseField'')
                   then (case reverseField_literal (obj_get a2 ''modelApiId'') of
                           Inl e \<Rightarrow> Inl e
                         | Inr r \<Rightarrow> Inr (obj_set a2 ''reverseField'' r))
                   else Inr a2)"
  have unfold1: "addRelationalField E this (JObj a) listener =
     (case step of Inl e \<Rightarrow> throw e listener
      | Inr a3 \<Rightarrow>
         (case set_prop (obj_get a3 ''reverseField'') ''modelApiId'' (obj_get a3 ''model'') of
                    Inl e \<Rightarrow> throw e listener
                  | Inr r1 \<Rightarrow>
                      let relationType = obj_get a3 ''relationType'';
                          a4 = obj_set a3 ''isList''
                                 (JBool (relationType = RelationType_value E OneToMany \<or>
                                         relationType = RelationType_value E ManyToMany));
                          r2 = obj_set r1 ''isList''
                                 (JBool (relationType = RelationType_value E ManyToOne \<or>
                                         relationType = RelationType_value E ManyToMany));
                          asset = (obj_get a4 ''type'' = JStr ''ASSET'');
                          a5 = (if asset
                                then (if obj_get a4 ''isRequired'' = JUndefined
                                      then obj_set a4 ''isRequired'' (JBool False) else a4)
                                else obj_del a4 ''isRequired'');
                          r3 = (if asset
                                then obj_set (obj_set r2 ''isList'' (JBool True)) ''isHidden'' (JBool True)
                                else r2);
                          a6 = obj_del (obj_del a5 ''model'') ''relationType'';
                          a7 = obj_set a6 ''reverseField'' (JObj r3)
                      in register_and_return
                           \<lparr>payload = a7, intent = Create, category = Some RelationalField\<rparr>
                           listener))"
    unfolding addRelationalField_def step_def a2_def m_def asset_def
    by (simp add: obj_get_set Let_def truthy_and_literal)
  from ok obtain a3 where a3: "step = Inr a3"
    unfolding unfold1 by (cases step) (simp_all add: throw_def)
  have a2_get: "\<And>k. obj_get a2 k =
      (if k = ''type'' then (if asset then JStr ''ASSET'' else JStr ''RELATION'')
       else if k = ''modelApiId'' then m else obj_get a k)"
    by (simp add: a2_def obj_get_set)
  have keep: "\<And>k. k \<noteq> ''reverseField'' \<Longrightarrow> obj_get a3 k = obj_get a2 k"
    using a3 unfolding step_def
    by (auto simp: obj_get_set split: if_splits sum.splits)
  from ok a3 obtain r1 where r1:
    "set_prop (obj_get a3 ''reverseField'') ''modelApiId'' (obj_get a3 ''model'') = Inr r1"
    unfolding unfold1
    by (cases "set_prop (obj_get a3 ''reverseField'') ''modelApiId'' (obj_get a3 ''model'')")
       (simp_all add: throw_def)
  then obtain r0 where r0: "obj_get a3 ''reverseField'' = JObj r0"
    and r1_eq: "r1 = obj_set r0 ''modelApiId'' (obj_get a3 ''model'')"
    by (auto simp: set_prop_Inr)
  have rf2: "obj_get a2 ''reverseField'' = obj_get a ''reverseField''"
    by (simp add: a2_get)
  have orig: "if truthy (obj_get a ''reverseField'') then obj_get a ''reverseField'' = JObj r0
            else reverseField_literal (obj_get (args this) ''apiId'') = Inr (JObj r0)"
  proof (cases "truthy (obj_get a ''reverseField'')")
    case True
    with a3 have "a3 = a2" by (simp add: step_def rf2)
    with r0 True show ?thesis by (simp add: rf2)
  next
    case False
    with a3 obtain r where "reverseField_literal (obj_get a2 ''modelApiId'') = Inr r"
      and "a3 = obj_set a2 ''reverseField'' r"
      by (auto simp: step_def rf2 split: sum.splits)
    with r0 False show ?thesis by (simp add: obj_get_set a2_get m_def)
  qed
  have keys_a3: "set (obj_keys a3) \<subseteq> insert ''reverseField'' (set (obj_keys a2))"
    using a3 unfolding step_def
    by (auto simp: obj_keys_set split: if_splits sum.splits)
  show ?thesis
    unfolding unfold1 a3 sum.case r1 Let_def
    using orig
    by (intro exI [of _ r0])
       (simp add: run_defs obj_get_set obj_get_del obj_keys_set obj_keys_del keep a2_get r1_eq
          rt_def)
qed


lemma addUnionField_payload:
  assumes ok: "fst (addUnionField E this (JObj a) listener) = Inr ()"
  defines "rt \<equiv> obj_get a ''relationType''"
  shows "\<exists>r0 f r.
           addUnionField E this (JObj a) listener = (Inr (), listener @ [FieldChange f]) \<and>
           intent f = Create \<and> category f = Some UnionField \<and>
           (if truthy (obj_get a ''reverseField'') then obj_get a ''reverseField'' = JObj r0
            else reverseField_literal (obj_get (args this) ''apiId'') = Inr (JObj r0)) \<and>
           obj_get (payload f) ''reverseField'' = JObj r \<and>
           (\<forall>k. k \<notin> {''modelApiIds'', ''isList''} \<longrightarrow> obj_get r k = obj_get r0 k) \<and>
           obj_get r ''modelApiIds'' = obj_get a ''models'' \<and>
           obj_get (payload f) ''isList'' =
             JBool (rt = RelationType_value E OneToMany \<or> rt = RelationType_value E ManyToMany) \<and>
           obj_get r ''isList'' =
             JBool (rt = RelationType_value E ManyToOne \<or> rt = RelationType_value E ManyToMany)"
proof -
  define m where "m = obj_get (args this) ''apiId''"
  define a1 where "a1 = obj_set a ''modelApiId'' m"
  define step where "step = (if \<not> truthy (obj_get a1 ''reverseField'')
                   then (case reverseField_literal (obj_get a1 ''modelApiId'') of
                           Inl e \<Rightarrow> Inl e
                         | Inr r \<Rightarrow> Inr (obj_set a1 ''reverseField'' r))
                   else Inr a1)"
  have a1_get: "\<And>k. obj_get a1 k = (if k = ''modelApiId'' then m else obj_get a k)"
    by (simp add: a1_def obj_get_set)
  have nonempty: "\<not> (\<not> truthy (obj_get a1 ''models'') \<or>
             get_prop (obj_get a1 ''models'') ''length'' = Inr (JNum 0))"
  proof
    assume "\<not> truthy (obj_get a1 ''models'') \<or>
             get_prop (obj_get a1 ''models'') ''length'' = Inr (JNum 0)"
    then have "addUnionField E this (JObj a) listener =
                 throw (Error ''models cannot be empty'') listener"
      unfolding addUnionField_def a1_def m_def by simp
    with ok show False by (simp add: throw_def)
  qed
  have unfold1: "addUnionField E this (JObj a) listener =
     (case step of Inl e \<Rightarrow> throw e listener
      | Inr a2 \<Rightarrow>
                 (case set_prop (obj_get a2 ''reverseField'') ''modelApiIds'' (obj_get a2 ''models'') of
                    Inl e \<Rightarrow> throw e listener
                  | Inr r1 \<Rightarrow>
                      let relationType = obj_get a2 ''relationType'';
                          a3 = obj_set a2 ''isList''
                                 (JBool (relationType = RelationType_value E OneToMany \<or>
                                         relationType = RelationType_value E ManyToMany));
                          r2 = obj_set r1 ''isList''
                                 (JBool (relationType = RelationType_value E ManyToOne \<or>
                                         relationType = RelationType_value E ManyToMany));
                          a4 = obj_del (obj_del a3 ''models'') ''relationType'';
                          a5 = obj_set a4 ''reverseField'' (JObj r2)
                      in register_and_return
                           \<lparr>payload = a5, intent = Create, category = Some UnionField\<rparr>
                           listener))"
    using nonempty unfolding addUnionField_def step_def a1_def m_def
    by simp
  from ok obtain a2 where a2: "step = Inr a2"
    unfolding unfold1 by (cases step) (simp_all add: throw_def)
  have rf1: "obj_get a1 ''reverseField'' = obj_get a ''reverseField''"
    by (simp add: a1_get)
  have keep: "\<And>k. k \<noteq> ''reverseField'' \<Longrightarrow> obj_get a2 k = obj_get a1 k"
    using a2 unfolding step_def
    by (auto simp: obj_get_set split: if_splits sum.splits)
  from ok a2 obtain r1 where r1:
    "set_prop (obj_get a2 ''reverseField'') ''modelApiIds'' (obj_get a2 ''models'') = Inr r1"
    unfolding unfold1
    by (cases "set_prop (obj_get a2 ''reverseField'') ''modelApiIds'' (obj_get a2 ''models'')")
       (simp_all add: throw_def)
  then obtain r0 where r0: "obj_get a2 ''reverseField'' = JObj r0"
    and r1_eq: "r1 = obj_set r0 ''modelApiIds'' (obj_get a2 ''models'')"
    by (auto simp: set_prop_Inr)
  have orig: "if truthy (obj_get a ''reverseField'') then obj_get a ''reverseField'' = JObj r0
            else reverseField_literal (obj_get (args this) ''apiId'') = Inr (JObj r0)"
  proof (cases "truthy (obj_get a ''reverseField'')")
    case True
    with a2 have "a2 = a1" by (simp add: step_def rf1)
    with r0 True show ?thesis by (simp add: rf1)
  next
    case False
    with a2 obtain r where "reverseField_literal (obj_get a1 ''modelApiId'') = Inr r"
      and "a2 = obj_set a1 ''reverseField'' r"
      by (auto simp: step_def rf1 split: sum.splits)
    with r0 False show ?thesis by (simp add: obj_get_set a1_get m_def)
  qed
  show ?thesis
    unfolding unfold1 a2 sum.case r1 Let_def
    using orig
    by (intro exI [of _ r0])
       (simp add: run_defs obj_get_set obj_get_del keep a1_get r1_eq rt_def)
qed

lemma addRelationalField_Inr_obj:
  "fst (addRelationalField E this fieldArgs listener) = Inr () \<Longrightarrow> \<exists>a. fieldArgs = JObj a"
  by (cases fieldArgs) (simp_all add: addRelationalField_def throw_def)

lemma addUnionField_Inr_obj:
  "fst (addUnionField E this fieldArgs listener) = Inr () \<Longrightarrow> \<exists>a. fieldArgs = JObj a"
  by (cases fieldArgs) (simp_all add: addUnionField_def throw_def)

lemma addRelationalField_returns:
  assumes "(\<not> truthy (obj_get a ''reverseField'') \<and> obj_get (args this) ''apiId'' = JStr m) \<or>
           obj_get a ''reverseField'' = JObj r0"
  shows "fst (addRelationalField E this (JObj a) listener) = Inr ()"
  using assms
  by (auto simp: addRelationalField_def Let_def obj_get_set reverseField_literal_def
        register_and_return_def)

lemma addUnionField_returns:
  assumes "obj_get a ''models'' = JArr (x # xs)"
    and "(\<not> truthy (obj_get a ''reverseField'') \<and> obj_get (args this) ''apiId'' = JStr m) \<or>
         obj_get a ''reverseField'' = JObj r0"
  shows "fst (addUnionField E this (JObj a) listener) = Inr ()"
  using assms
  by (auto simp: addUnionField_def Let_def obj_get_set reverseField_literal_def
        register_and_return_def)

text \<open>
  Claim C1. Let the \<open>relationType\<close> of the argument be a member of \<open>RelationType\<close>
  (the members having distinct values). Every returning call of
  \<open>addRelationalField\<close> registers a payload whose \<open>isList\<close> is the forward side of
  the table \<open>spec_listness\<close> and, when the caller passed neither type \<open>"ASSET"\<close>
  nor model \<open>"Asset"\<close>, whose reverse field has the table's reverse side as
  \<open>isList\<close>. Every returning call of \<open>addUnionField\<close> registers a payload with
  both sides as in the table: OneToOne gives false and false, OneToMany true and
  false, ManyToOne false and true, ManyToMany true and true. The calls do return:
  \<open>addRelationalField\<close> on every argument object whose reverse field is an object,
  or is absent while the model's \<open>apiId\<close> is a string; \<open>addUnionField\<close> on every
  such object whose \<open>models\<close> is a non-empty list.
\<close>

theorem relation_listness:
  assumes "inj (RelationType_value E)"
    and "get_prop fieldArgs ''relationType'' = Inr (RelationType_value E rt)"
  shows "(fst (addRelationalField E this fieldArgs listener) = Inr () \<longrightarrow>
            (\<exists>f r. addRelationalField E this fieldArgs listener = (Inr (), listener @ [FieldChange f]) \<and>
               obj_get (payload f) ''isList'' = JBool (fst (spec_listness rt)) \<and>
               obj_get (payload f) ''reverseField'' = JObj r \<and>
               (get_prop fieldArgs ''type'' \<noteq> Inr (JStr ''ASSET'') \<and>
                get_prop fieldArgs ''model'' \<noteq> Inr (JStr ''Asset'') \<longrightarrow>
                  obj_get r ''isList'' = JBool (snd (spec_listness rt))))) \<and>
         (fst (addUnionField E this fieldArgs listener) = Inr () \<longrightarrow>
            (\<exists>f r. addUnionField E this fieldArgs listener = (Inr (), listener @ [FieldChange f]) \<and>
               obj_get (payload f) ''isList'' = JBool (fst (spec_listness rt)) \<and>
               obj_get (payload f) ''reverseField'' = JObj r \<and>
               obj_get r ''isList'' = JBool (snd (spec_listness rt)))) \<and>
         (\<forall>a m r0. fieldArgs = JObj a \<and>
              ((\<not> truthy (obj_get a ''reverseField'') \<and> obj_get (args this) ''apiId'' = JStr m) \<or>
               obj_get a ''reverseField'' = JObj r0) \<longrightarrow>
            fst (addRelationalField E this fieldArgs listener) = Inr ()) \<and>
         (\<forall>a m r0 x xs. fieldArgs = JObj a \<and> obj_get a ''models'' = JArr (x # xs) \<and>
              ((\<not> truthy (obj_get a ''reverseField'') \<and> obj_get (args this) ''apiId'' = JStr m) \<or>
               obj_get a ''reverseField'' = JObj r0) \<longrightarrow>
            fst (addUnionField E this fieldArgs listener) = Inr ())"
proof (intro conjI impI allI)
  note inj = inj_eq [OF assms(1)]
  assume ok: "fst (addRelationalField E this fieldArgs listener) = Inr ()"
  then obtain a where a: "fieldArgs = JObj a" by (auto dest: addRelationalField_Inr_obj)
  with assms(2) have rt: "obj_get a ''relationType'' = RelationType_value E rt" by simp
  from addRelationalField_payload [OF ok [unfolded a]] obtain r0 f r where
    "addRelationalField E this (JObj a) listener = (Inr (), listener @ [FieldChange f])"
    "obj_get (payload f) ''reverseField'' = JObj r"
    "obj_get (payload f) ''isList'' =
       JBool (obj_get a ''relationType'' = RelationType_value E OneToMany \<or>
              obj_get a ''relationType'' = RelationType_value E ManyToMany)"
    "obj_get r ''isList'' =
       JBool ((obj_get a ''type'' = JStr ''ASSET'' \<or> obj_get a ''model'' = JStr ''Asset'') \<or>
              obj_get a ''relationType'' = RelationType_value E ManyToOne \<or>
              obj_get a ''relationType'' = RelationType_value E ManyToMany)"
    by blast
  then show "\<exists>f r. addRelationalField E this fieldArgs listener = (Inr (), listener @ [FieldChange f]) \<and>
               obj_get (payload f) ''isList'' = JBool (fst (spec_listness rt)) \<and>
               obj_get (payload f) ''reverseField'' = JObj r \<and>
               (get_prop fieldArgs ''type'' \<noteq> Inr (JStr ''ASSET'') \<and>
                get_prop fieldArgs ''model'' \<noteq> Inr (JStr ''Asset'') \<longrightarrow>
                  obj_get r ''isList'' = JBool (snd (spec_listness rt)))"
    unfolding a by (cases rt) (simp_all add: rt inj)
next
  note inj = inj_eq [OF assms(1)]
  assume ok: "fst (addUnionField E this fieldArgs listener) = Inr ()"
  then obtain a where a: "fieldArgs = JObj a" by (auto dest: addUnionField_Inr_obj)
  with assms(2) have rt: "obj_get a ''relationType'' = RelationType_value E rt" by simp
  from addUnionField_payload [OF ok [unfolded a]] obtain r0 f r where
    "addUnionField E this (JObj a) listener = (Inr (), listener @ [FieldChange f])"
    "obj_get (payload f) ''reverseField'' = JObj r"
    "obj_get (payload f) ''isList'' =
       JBool (obj_get a ''relationType'' = RelationType_value E OneToMany \<or>
              obj_get a ''relationType'' = RelationType_value E ManyToMany)"
    "obj_get r ''isList'' =
       JBool (obj_get a ''relationType'' = RelationType_value E ManyToOne \<or>
              obj_get a ''relationType'' = RelationType_value E ManyToMany)"
    by blast
  then show "\<exists>f r. addUnionField E this fieldArgs listener = (Inr (), listener @ [FieldChange f]) \<and>
               obj_get (payload f) ''isList'' = JBool (fst (spec_listness rt)) \<and>
               obj_get (payload f) ''reverseField'' = JObj r \<and>
               obj_get r ''isList'' = JBool (snd (spec_listness rt))"
    unfolding a by (cases rt) (simp_all add: rt inj)
next
  fix a m r0
  assume "fieldArgs = JObj a \<and>
              ((\<not> truthy (obj_get a ''reverseField'') \<and> obj_get (args this) ''apiId'' = JStr m) \<or>
               obj_get a ''reverseField'' = JObj r0)"
  then show "fst (addRelationalField E this fieldArgs listener) = Inr ()"
    using addRelationalField_returns [of a this m r0 E listener] by blast
next
  fix a m r0 x xs
  assume "fieldArgs = JObj a \<and> obj_get a ''models'' = JArr (x # xs) \<and>
              ((\<not> truthy (obj_get a ''reverseField'') \<and> obj_get (args this) ''apiId'' = JStr m) \<or>
               obj_get a ''reverseField'' = JObj r0)"
  then show "fst (addUnionField E this fieldArgs listener) = Inr ()"
    using addUnionField_returns [of a x xs this m r0 E listener] by blast
qed

theorem relation_listness_witness:
  "inj (RelationType_value sample_enums) \<and>
   (\<exists>f r. addRelationalField sample_enums post_model
        (JObj [(''apiId'', JStr ''author''), (''model'', JStr ''User''), (''models'', JArr [JStr ''User'']),
               (''relationType'', JStr ''ManyToOne'')]) [] = (Inr (), [] @ [FieldChange f]) \<and>
      obj_get (payload f) ''isList'' = JBool False \<and>
      obj_get (payload f) ''reverseField'' = JObj r \<and>
      obj_get r ''isList'' = JBool True) \<and>
   (\<exists>f r. addUnionField sample_enums post_model
        (JObj [(''apiId'', JStr ''author''), (''model'', JStr ''User''), (''models'', JArr [JStr ''User'']),
               (''relationType'', JStr ''ManyToOne'')]) [] = (Inr (), [] @ [FieldChange f]) \<and>
      obj_get (payload f) ''isList'' = JBool False \<and>
      obj_get (payload f) ''reverseField'' = JObj r \<and>
      obj_get r ''isList'' = JBool True) \<and>
   (\<exists>f r. addRelationalField sample_enums post_model
        (JObj [(''apiId'', JStr ''tags''), (''model'', JStr ''Tag''), (''models'', JArr [JStr ''Tag'']),
               (''relationType'', JStr ''ManyToMany'')]) [] = (Inr (), [] @ [FieldChange f]) \<and>
      obj_get (payload f) ''isList'' = JBool True \<and>
      obj_get (payload f) ''reverseField'' = JObj r \<and>
      obj_get r ''isList'' = JBool True) \<and>
   (\<exists>f r. addUnionField sample_enums post_model
        (JObj [(''apiId'', JStr ''tags''), (''model'', JStr ''Tag''), (''models'', JArr [JStr ''Tag'']),
               (''relationType'', JStr ''ManyToMany'')]) [] = (Inr (), [] @ [FieldChange f]) \<and>
      obj_get (payload f) ''isList'' = JBool True \<and>
      obj_get (payload f) ''reverseField'' = JObj r \<and>
      obj_get r ''isList'' = JBool True)"
proof -
  let ?a1 = "[(''apiId'', JStr ''author''), (''model'', JStr ''User''), (''models'', JArr [JStr ''User'']),
               (''relationType'', JStr ''ManyToOne'')]"
  let ?a2 = "[(''apiId'', JStr ''tags''), (''model'', JStr ''Tag''), (''models'', JArr [JStr ''Tag'']),
               (''relationType'', JStr ''ManyToMany'')]"
  have i: "inj (RelationType_value sample_enums)"
    by (simp add: sample_enums_def inj_sample_relation)
  have g1: "get_prop (JObj ?a1) ''relationType'' = Inr (RelationType_value sample_enums ManyToOne)"
    by (simp add: obj_get_def sample_enums_def)
  have g2: "get_prop (JObj ?a2) ''relationType'' = Inr (RelationType_value sample_enums ManyToMany)"
    by (simp add: obj_get_def sample_enums_def)
  note t1 = relation_listness [OF i g1, of post_model "[]"]
  note t2 = relation_listness [OF i g2, of post_model "[]"]
  have api: "obj_get (args post_model) ''apiId'' = JStr ''Post''"
    by (simp add: post_model_def obj_get_def)
  have rel1: "fst (addRelationalField sample_enums post_model (JObj ?a1) []) = Inr ()"
    using t1 [THEN conjunct2, THEN conjunct2, THEN conjunct1, rule_format,
              where a = ?a1 and m = "''Post''"] api
    by (simp add: obj_get_def)
  have uni1: "fst (addUnionField sample_enums post_model (JObj ?a1) []) = Inr ()"
    using t1 [THEN conjunct2, THEN conjunct2, THEN conjunct2, rule_format,
              where a = ?a1 and m = "''Post''" and x = "JStr ''User''" and xs = "[]"] api
    by (simp add: obj_get_def)
  have rel2: "fst (addRelationalField sample_enums post_model (JObj ?a2) []) = Inr ()"
    using t2 [THEN conjunct2, THEN conjunct2, THEN conjunct1, rule_format,
              where a = ?a2 and m = "''Post''"] api
    by (simp add: obj_get_def)
  have uni2: "fst (addUnionField sample_enums post_model (JObj ?a2) []) = Inr ()"
    using t2 [THEN conjunct2, THEN conjunct2, THEN conjunct2, rule_format,
              where a = ?a2 and m = "''Post''" and x = "JStr ''Tag''" and xs = "[]"] api
    by (simp add: obj_get_def)
  from t1 [THEN conjunct1] rel1
  have c1: "\<exists>f r. addRelationalField sample_enums post_model (JObj ?a1) [] = (Inr (), [] @ [FieldChange f]) \<and>
      obj_get (payload f) ''isList'' = JBool False \<and>
      obj_get (payload f) ''reverseField'' = JObj r \<and>
      obj_get r ''isList'' = JBool True"
    by (simp add: obj_get_def)
  from t1 [THEN conjunct2, THEN conjunct1] uni1
  have c2: "\<exists>f r. addUnionField sample_enums post_model (JObj ?a1) [] = (Inr (), [] @ [FieldChange f]) \<and>
      obj_get (payload f) ''isList'' = JBool False \<and>
      obj_get (payload f) ''reverseField'' = JObj r \<and>
      obj_get r ''isList'' = JBool True"
    by simp
  from t2 [THEN conjunct1] rel2
  have c3: "\<exists>f r. addRelationalField sample_enums post_model (JObj ?a2) [] = (Inr (), [] @ [FieldChange f]) \<and>
      obj_get (payload f) ''isList'' = JBool True \<and>
      obj_get (payload f) ''reverseField'' = JObj r \<and>
      obj_get r ''isList'' = JBool True"
    by (simp add: obj_get_def)
  from t2 [THEN conjunct2, THEN conjunct1] uni2
  have c4: "\<exists>f r. addUnionField sample_enums post_model (JObj ?a2) [] = (Inr (), [] @ [FieldChange f]) \<and>
      obj_get (payload f) ''isList'' = JBool True \<and>
      obj_get (payload f) ''reverseField'' = JObj r \<and>
      obj_get r ''isList'' = JBool True"
    by simp
  from i c1 c2 c3 c4 show ?thesis by blast
qed

text \<open>
  Claim C3. For every returning call of \<open>addRelationalField\<close>: when the caller passed
  type \<open>"ASSET"\<close> or model \<open>"Asset"\<close>, the payload's reverse field has \<open>isList\<close>
  true and \<open>isHidden\<close> true whatever the relation type, and \<open>isRequired\<close> is the
  caller's, or false when the caller gave none; otherwise the payload has no
  \<open>isRequired\<close> attribute, even if the caller supplied one.
\<close>

theorem addRelationalField_asset:
  assumes "fst (addRelationalField E this (JObj a) listener) = Inr ()"
  shows "\<exists>f r. snd (addRelationalField E this (JObj a) listener) = listener @ [FieldChange f] \<and>
           obj_get (payload f) ''reverseField'' = JObj r \<and>
           (if obj_get a ''type'' = JStr ''ASSET'' \<or> obj_get a ''model'' = JStr ''Asset''
            then obj_get r ''isList'' = JBool True \<and> obj_get r ''isHidden'' = JBool True \<and>
                 obj_get (payload f) ''isRequired'' =
                   (if obj_get a ''isRequired'' = JUndefined then JBool False
                    else obj_get a ''isRequired'')
            else ''isRequired'' \<notin> set (obj_keys (payload f)))"
proof -
  from addRelationalField_payload [OF assms] obtain r0 f r where
    "addRelationalField E this (JObj a) listener = (Inr (), listener @ [FieldChange f])"
    "obj_get (payload f) ''reverseField'' = JObj r"
    "obj_get r ''isList'' =
       JBool ((obj_get a ''type'' = JStr ''ASSET'' \<or> obj_get a ''model'' = JStr ''Asset'') \<or>
              obj_get a ''relationType'' = RelationType_value E ManyToOne \<or>
              obj_get a ''relationType'' = RelationType_value E ManyToMany)"
    "obj_get a ''type'' = JStr ''ASSET'' \<or> obj_get a ''model'' = JStr ''Asset'' \<longrightarrow>
       obj_get r ''isHidden'' = JBool True \<and>
       obj_get (payload f) ''isRequired'' =
         (if obj_get a ''isRequired'' = JUndefined then JBool False else obj_get a ''isRequired'')"
    "\<not> (obj_get a ''type'' = JStr ''ASSET'' \<or> obj_get a ''model'' = JStr ''Asset'') \<longrightarrow>
       ''isRequired'' \<notin> set (obj_keys (payload f))"
    by blast
  then show ?thesis by (intro exI [of _ f] exI [of _ r]) simp
qed

theorem addRelationalField_asset_witness:
  "(\<exists>f r. snd (addRelationalField sample_enums post_model
        (JObj [(''apiId'', JStr ''cover''), (''model'', JStr ''Asset''),
               (''relationType'', JStr ''OneToOne'')]) []) = [] @ [FieldChange f] \<and>
      obj_get (payload f) ''reverseField'' = JObj r \<and>
      obj_get r ''isList'' = JBool True \<and> obj_get r ''isHidden'' = JBool True \<and>
      obj_get (payload f) ''isRequired'' = JBool False) \<and>
   (\<exists>f r. snd (addRelationalField sample_enums post_model
        (JObj [(''apiId'', JStr ''author''), (''model'', JStr ''User''),
               (''relationType'', JStr ''ManyToOne''), (''isRequired'', JBool True)]) [])
         = [] @ [FieldChange f] \<and>
      obj_get (payload f) ''reverseField'' = JObj r \<and>
      ''isRequired'' \<notin> set (obj_keys (payload f)))"
proof -
  have ok1: "fst (addRelationalField sample_enums post_model
        (JObj [(''apiId'', JStr ''cover''), (''model'', JStr ''Asset''),
               (''relationType'', JStr ''OneToOne'')]) []) = Inr ()"
    by (simp add: addRelationalField_def eval_defs)
  have ok2: "fst (addRelationalField sample_enums post_model
        (JObj [(''apiId'', JStr ''author''), (''model'', JStr ''User''),
               (''relationType'', JStr ''ManyToOne''), (''isRequired'', JBool True)]) []) = Inr ()"
    by (simp add: addRelationalField_def eval_defs)
  from addRelationalField_asset [OF ok1] addRelationalField_asset [OF ok2]
  show ?thesis by (simp add: obj_get_def)
qed

lemma addRelationalField_synthesizes:
  assumes "\<not> truthy (obj_get a ''reverseField'')" and "obj_get (args this) ''apiId'' = JStr m"
  shows "fst (addRelationalField E this (JObj a) listener) = Inr ()"
  using assms
  by (simp add: addRelationalField_def Let_def obj_get_set reverseField_literal_def
        register_and_return_def)

text \<open>
  Scenario B of the specification, run on the builder of the model \<open>Post\<close>: the
  synthesized reverse field is named after the model (\<open>relatedPost\<close>,
  \<open>Related Post\<close>), not after the field \<open>author\<close>.
\<close>

theorem addRelationalField_scenario_B_counterexample:
  "addRelationalField sample_enums post_model
     (JObj [(''apiId'', JStr ''author''), (''model'', JStr ''User''),
            (''relationType'', JStr ''ManyToOne'')]) []
   = (Inr (),
      [FieldChange
        \<lparr>payload =
           [(''apiId'', JStr ''author''), (''modelApiId'', JStr ''Post''),
            (''type'', JStr ''RELATION''),
            (''reverseField'',
             JObj [(''apiId'', JStr ''relatedPost''), (''displayName'', JStr ''Related Post''),
                   (''modelApiId'', JStr ''User''), (''isList'', JBool True)]),
            (''isList'', JBool False)],
         intent = Create, category = Some RelationalField\<rparr>]) \<and>
   \<not> (\<exists>f r. snd (addRelationalField sample_enums post_model
                    (JObj [(''apiId'', JStr ''author''), (''model'', JStr ''User''),
                           (''relationType'', JStr ''ManyToOne'')]) []) = [FieldChange f] \<and>
             obj_get (payload f) ''reverseField'' = JObj r \<and>
             obj_get r ''apiId'' = JStr ''relatedauthor'' \<and>
             obj_get r ''displayName'' = JStr ''Related author'')"
  by (simp add: addRelationalField_def eval_defs)

text \<open>
  Claim C2, as amended. On the builder of a model whose \<open>apiId\<close> is the string \<open>m\<close>,
  a call of \<open>addRelationalField\<close> without a reverse field returns and registers a
  Create-mode change item whose synthesized reverse field has \<open>apiId\<close>
  \<open>"related" + m\<close> and \<open>displayName\<close> \<open>"Related " + m\<close>: both are derived from the
  owning model's \<open>apiId\<close>, not from the field's. With relation type ManyToOne the
  forward side is not a list and the reverse side is.
\<close>

theorem addRelationalField_synthesized_reverseField:
  assumes "\<not> truthy (obj_get a ''reverseField'')" and "obj_get (args this) ''apiId'' = JStr m"
  shows "\<exists>f r. addRelationalField E this (JObj a) listener = (Inr (), listener @ [FieldChange f]) \<and>
           intent f = Create \<and>
           obj_get (payload f) ''reverseField'' = JObj r \<and>
           obj_get r ''apiId'' = JStr (''related'' @ m) \<and>
           obj_get r ''displayName'' = JStr (''Related '' @ m) \<and>
           (inj (RelationType_value E) \<and>
            obj_get a ''relationType'' = RelationType_value E ManyToOne \<longrightarrow>
              obj_get (payload f) ''isList'' = JBool False \<and> obj_get r ''isList'' = JBool True)"
proof -
  have ok: "fst (addRelationalField E this (JObj a) listener) = Inr ()"
    using assms by (rule addRelationalField_synthesizes)
  from addRelationalField_payload [OF ok] assms obtain r0 f r where
    out: "addRelationalField E this (JObj a) listener = (Inr (), listener @ [FieldChange f])"
      "intent f = Create"
      "obj_get (payload f) ''reverseField'' = JObj r"
    and lit: "reverseField_literal (JStr m) = Inr (JObj r0)"
    and same: "\<forall>k. k \<notin> {''modelApiId'', ''isList'', ''isHidden''} \<longrightarrow> obj_get r k = obj_get r0 k"
    and lists: "obj_get (payload f) ''isList'' =
       JBool (obj_get a ''relationType'' = RelationType_value E OneToMany \<or>
              obj_get a ''relationType'' = RelationType_value E ManyToMany)"
      "obj_get r ''isList'' =
       JBool ((obj_get a ''type'' = JStr ''ASSET'' \<or> obj_get a ''model'' = JStr ''Asset'') \<or>
              obj_get a ''relationType'' = RelationType_value E ManyToOne \<or>
              obj_get a ''relationType'' = RelationType_value E ManyToMany)"
    by (auto split: if_splits)
  from lit have r0: "r0 = [(''apiId'', JStr (''related'' @ m)), (''displayName'', JStr (''Related '' @ m))]"
    by (simp add: reverseField_literal_def)
  from same have "obj_get r ''apiId'' = obj_get r0 ''apiId''"
    "obj_get r ''displayName'' = obj_get r0 ''displayName''" by simp_all
  with r0 have names: "obj_get r ''apiId'' = JStr (''related'' @ m)"
    "obj_get r ''displayName'' = JStr (''Related '' @ m)"
    by (simp_all add: obj_get_def)
  show ?thesis
    using out names lists
    by (intro exI [of _ f] exI [of _ r]) (auto simp: inj_eq)
qed

theorem addRelationalField_synthesized_reverseField_witness:
  "\<exists>f r. addRelationalField sample_enums post_model
        (JObj [(''apiId'', JStr ''author''), (''model'', JStr ''User''),
               (''relationType'', JStr ''ManyToOne'')]) [] = (Inr (), [] @ [FieldChange f]) \<and>
      intent f = Create \<and>
      obj_get (payload f) ''reverseField'' = JObj r \<and>
      obj_get r ''apiId'' = JStr ''relatedPost'' \<and>
      obj_get r ''displayName'' = JStr ''Related Post'' \<and>
      obj_get (payload f) ''isList'' = JBool False \<and> obj_get r ''isList'' = JBool True"
  using addRelationalField_synthesized_reverseField
          [of "[(''apiId'', JStr ''author''), (''model'', JStr ''User''),
                (''relationType'', JStr ''ManyToOne'')]" post_model "''Post''" sample_enums "[]"]
        inj_sample_relation
  by (simp add: obj_get_def post_model_def sample_enums_def)

section \<open>The shape of extracted validations\<close>

text \<open>
  Claim C8. With distinct values for the types Int, Float and String: for a field of
  type Int or Float the extractor returns one structure, under the type's name, whose
  attributes are \<open>range\<close> and, exactly when the field is list-valued,
  \<open>listItemCount\<close>, each taken from the request; for a field of type String the
  attributes are \<open>characters\<close>, \<open>matches\<close>, \<open>notMatches\<close> and, exactly when the
  field is list-valued, \<open>listItemCount\<close>; for any other type it throws the
  unsupported-type error.
\<close>

theorem extractFieldValidations_shape:
  assumes "distinct [GraphQLSimpleFieldType_Int E, GraphQLSimpleFieldType_Float E,
                     GraphQLSimpleFieldType_String E]"
  shows "(obj_get fieldArgs ''type'' \<in> {GraphQLSimpleFieldType_Int E, GraphQLSimpleFieldType_Float E} \<longrightarrow>
            (\<exists>n. extractFieldValidations E fieldArgs =
                    Inr (JObj [(if obj_get fieldArgs ''type'' = GraphQLSimpleFieldType_Int E
                                then ''Int'' else ''Float'', JObj n)]) \<and>
                 obj_keys n = ''range'' #
                   (if truthy (obj_get fieldArgs ''isList'') then [''listItemCount''] else []) \<and>
                 obj_get n ''range'' = opt_chain (obj_get fieldArgs ''validations'') ''range'' \<and>
                 obj_get n ''listItemCount'' =
                   (if truthy (obj_get fieldArgs ''isList'')
                    then opt_chain (obj_get fieldArgs ''validations'') ''listItemCount''
                    else JUndefined))) \<and>
         (obj_get fieldArgs ''type'' = GraphQLSimpleFieldType_String E \<longrightarrow>
            (\<exists>n. extractFieldValidations E fieldArgs = Inr (JObj [(''String'', JObj n)]) \<and>
                 obj_keys n = [''characters'', ''matches'', ''notMatches''] @
                   (if truthy (obj_get fieldArgs ''isList'') then [''listItemCount''] else []) \<and>
                 obj_get n ''characters'' = opt_chain (obj_get fieldArgs ''validations'') ''characters'' \<and>
                 obj_get n ''matches'' = opt_chain (obj_get fieldArgs ''validations'') ''matches'' \<and>
                 obj_get n ''notMatches'' = opt_chain (obj_get fieldArgs ''validations'') ''notMatches'' \<and>
                 obj_get n ''listItemCount'' =
                   (if truthy (obj_get fieldArgs ''isList'')
                    then opt_chain (obj_get fieldArgs ''validations'') ''listItemCount''
                    else JUndefined))) \<and>
         (obj_get fieldArgs ''type'' \<notin> {GraphQLSimpleFieldType_Int E, GraphQLSimpleFieldType_Float E,
                                        GraphQLSimpleFieldType_String E} \<longrightarrow>
            extractFieldValidations E fieldArgs = Inl (NotSupportedFor (obj_get fieldArgs ''type'')))"
  using assms
  by (auto simp: extractFieldValidations_def Let_def obj_set_def obj_get_def obj_keys_def)

theorem extractFieldValidations_shape_witness:
  "extractFieldValidations sample_enums
     [(''apiId'', JStr ''scores''), (''type'', JStr ''INT''), (''isList'', JBool True),
      (''validations'', JObj [(''range'', JObj [(''min'', JNum 0)]),
                              (''listItemCount'', JObj [(''max'', JNum 5)])])]
   = Inr (JObj [(''Int'', JObj [(''range'', JObj [(''min'', JNum 0)]),
                                (''listItemCount'', JObj [(''max'', JNum 5)])])]) \<and>
   extractFieldValidations sample_enums [(''apiId'', JStr ''flag''), (''type'', JStr ''BOOLEAN'')]
   = Inl (NotSupportedFor (JStr ''BOOLEAN''))"
proof -
  have d: "distinct [GraphQLSimpleFieldType_Int sample_enums, GraphQLSimpleFieldType_Float sample_enums,
                     GraphQLSimpleFieldType_String sample_enums]"
    by (simp add: sample_enums_def)
  from extractFieldValidations_shape [OF d, of "[(''apiId'', JStr ''scores''), (''type'', JStr ''INT''), (''isList'', JBool True),
      (''validations'', JObj [(''range'', JObj [(''min'', JNum 0)]),
                              (''listItemCount'', JObj [(''max'', JNum 5)])])]"]
  obtain n where n: "extractFieldValidations sample_enums
     [(''apiId'', JStr ''scores''), (''type'', JStr ''INT''), (''isList'', JBool True),
      (''validations'', JObj [(''range'', JObj [(''min'', JNum 0)]),
                              (''listItemCount'', JObj [(''max'', JNum 5)])])] = Inr (JObj [(''Int'', JObj n)])"
    "obj_keys n = [''range'', ''listItemCount'']"
    "obj_get n ''range'' = JObj [(''min'', JNum 0)]"
    "obj_get n ''listItemCount'' = JObj [(''max'', JNum 5)]"
    by (auto simp: sample_enums_def obj_get_def opt_chain_def)
  from n(2) obtain x y where "n = [(''range'', x), (''listItemCount'', y)]"
    by (auto simp: obj_keys_def map_eq_Cons_conv)
  with n have "n = [(''range'', JObj [(''min'', JNum 0)]), (''listItemCount'', JObj [(''max'', JNum 5)])]"
    by (simp add: obj_get_def)
  with n(1) extractFieldValidations_shape [OF d, of "[(''apiId'', JStr ''flag''), (''type'', JStr ''BOOLEAN'')]"]
  show ?thesis by (simp add: sample_enums_def obj_get_def)
qed

section \<open>Registration\<close>

lemma settled_throw: "settled l (throw e l)"
  by (simp add: settled_def throw_def)

lemma settled_register: "settled l (register_and_return f l)"
  by (simp add: settled_def run_defs)

lemma settled_sum:
  "(\<And>e. settled l (g e)) \<Longrightarrow> (\<And>x. settled l (h x)) \<Longrightarrow>
   settled l (case s of Inl e \<Rightarrow> g e | Inr x \<Rightarrow> h x)"
  by (cases s) auto

lemma settled_if: "(c \<Longrightarrow> settled l a) \<Longrightarrow> (\<not> c \<Longrightarrow> settled l b) \<Longrightarrow> settled l (if c then a else b)"
  by simp

lemma settled_Let: "(\<And>x. settled l (f x)) \<Longrightarrow> settled l (Let v f)"
  by (simp add: Let_def)

lemmas settled_intros = settled_sum settled_if settled_Let settled_throw settled_register

lemma invoke_settled: "settled listener (invoke E this c listener)"
proof (cases c)
  case (AddSimpleField x)
  then show ?thesis unfolding invoke.simps AddSimpleField addSimpleField_def by (intro settled_intros)
next
  case (AddRemoteField x)
  then show ?thesis unfolding invoke.simps AddRemoteField addRemoteField_def by (intro settled_intros)
next
  case (UpdateSimpleField x)
  then show ?thesis unfolding invoke.simps UpdateSimpleField updateSimpleField_def by (intro settled_intros)
next
  case (AddRelationalField x)
  then show ?thesis unfolding invoke.simps AddRelationalField addRelationalField_def by (intro settled_intros)
next
  case (UpdateRelationalField x)
  then show ?thesis unfolding invoke.simps UpdateRelationalField updateRelationalField_def by (intro settled_intros)
next
  case (AddUnionField x)
  then show ?thesis unfolding invoke.simps AddUnionField addUnionField_def by (intro settled_intros)
next
  case (UpdateUnionField x)
  then show ?thesis unfolding invoke.simps UpdateUnionField updateUnionField_def by (intro settled_intros)
next
  case (AddEnumerableField x)
  then show ?thesis unfolding invoke.simps AddEnumerableField addEnumerableField_def by (intro settled_intros)
next
  case (UpdateEnumerableField x)
  then show ?thesis unfolding invoke.simps UpdateEnumerableField updateEnumerableField_def by (intro settled_intros)
next
  case (DeleteField x)
  then show ?thesis unfolding invoke.simps DeleteField deleteField_def by (intro settled_intros)
qed

text \<open>
  Claim C9. Every builder method that returns has appended exactly one change item to
  the accumulator's list: the list after the call is the list before it with the new
  item at the end, so the items registered before are unchanged and keep their order.
\<close>

theorem builder_appends_one:
  assumes "fst (invoke E this c listener) = Inr ()"
  shows "\<exists>item. snd (invoke E this c listener) = listener @ [item] \<and>
           length (snd (invoke E this c listener)) = length listener + 1 \<and>
           take (length listener) (snd (invoke E this c listener)) = listener"
  using assms invoke_settled [of listener E this c]
  by (auto simp: settled_def)

theorem builder_appends_one_witness:
  "fst (invoke sample_enums post_model (DeleteField ''title'') [ModelChange post_model]) = Inr () \<and>
   (\<exists>item. snd (invoke sample_enums post_model (DeleteField ''title'') [ModelChange post_model])
              = [ModelChange post_model] @ [item])"
proof -
  have ok: "fst (invoke sample_enums post_model (DeleteField ''title'') [ModelChange post_model]) = Inr ()"
    by (simp add: deleteField_def register_and_return_def)
  from builder_appends_one [OF ok] ok show ?thesis by blast
qed

lemma invoke_failure_registers_nothing:
  "fst (invoke E this c listener) = Inl e \<Longrightarrow> snd (invoke E this c listener) = listener"
  using invoke_settled [of listener E this c]
  by (auto simp: settled_def)

end
